theory Spec2Isabelle
  imports Complex_Main
begin

section \<open>Multivariate feature selection of fslite (\<open>fslite/fs/multivariate.py\<close>)\<close>

text \<open>
  The module holds two selectors, \<open>multivariate_correlation_selector\<close> and
  \<open>multivariate_variance_selector\<close>, and a thin dispatching class around them.
  Both selectors read a dense feature matrix (rows are samples, columns are features) and
  return a list of column indices.

  Conventions of the embedding.
  \<^item> An array entry is a \<open>float64\<close> value: a number, an infinity or NaN. A comparison
    with NaN is false, as in the code.
  \<^item> A two-dimensional array is the list of its rows. What a library call returns is
    either such an array or a zero-dimensional value.
  \<^item> A \<open>raise\<close> is the left summand of a sum type.
  \<^item> The numeric library calls are parameters of the selectors: \<open>np.corrcoef\<close> and
    \<open>scipy.stats.spearmanr\<close>, which may raise and may return a zero-dimensional value,
    and \<open>np.mean(., axis=1)\<close> and \<open>np.var(., axis=0)\<close>, whose results carry the rounding
    of the floating-point arithmetic. No theorem assumes that they compute exactly.
  \<^item> The array operations that move or compare values without arithmetic (\<open>np.abs\<close>,
    \<open>np.triu\<close>, the comparison with the threshold, \<open>np.where\<close>, \<open>np.column_stack\<close>) are
    written out.
  \<^item> The threshold is a number.
\<close>

subsection \<open>Values, arrays and errors\<close>

datatype float64 = NaN | NegInf | Finite real | PosInf

text \<open>\<open>a > b\<close> on floating-point values: false as soon as one side is NaN.\<close>

fun float_gt :: "float64 \<Rightarrow> float64 \<Rightarrow> bool" where
  "float_gt (Finite x) (Finite y) = (y < x)"
| "float_gt PosInf (Finite y) = True"
| "float_gt PosInf NegInf = True"
| "float_gt (Finite x) NegInf = True"
| "float_gt _ _ = False"

text \<open>The absolute value: exact on numbers, NaN stays NaN.\<close>

fun float_abs :: "float64 \<Rightarrow> float64" where
  "float_abs NaN = NaN"
| "float_abs NegInf = PosInf"
| "float_abs (Finite x) = Finite \<bar>x\<bar>"
| "float_abs PosInf = PosInf"

type_synonym matrix = "float64 list list"

text \<open>A two-dimensional array of numbers.\<close>

definition finite_matrix :: "real list list \<Rightarrow> matrix" where
  "finite_matrix m = map (map Finite) m"

text \<open>
  The value of a correlation call: a two-dimensional array, or a zero-dimensional
  value (\<open>np.corrcoef\<close> of a single column, \<open>spearmanr\<close> of two columns).
\<close>

datatype ndarray = Scalar float64 | Array2 matrix

text \<open>
  Both \<open>raise ValueError(...)\<close> of the correlation selector, told apart by their message
  (\<open>Unsupported correlation method '...'\<close> and \<open>Unsupported selection mode '...'\<close>), with
  the offending identifier; the \<open>TypeError\<close> of an array operation, with the name of
  the operation; and an exception that leaves a library call.
\<close>

datatype error =
    UnsupportedCorrMethod string
  | UnsupportedSelectionMode string
  | TypeError string
  | LibraryError string

text \<open>\<open>f_matrix.shape[1]\<close>: the number of columns (of an array with no row: none).\<close>

definition shape1 :: "matrix \<Rightarrow> nat" where
  "shape1 m = (case m of [] \<Rightarrow> 0 | row # _ \<Rightarrow> length row)"

text \<open>\<open>np.abs(corr_matrix)\<close> of a two-dimensional array, entry by entry.\<close>

definition np_abs :: "matrix \<Rightarrow> matrix" where
  "np_abs m = map (map float_abs) m"

text \<open>
  \<open>np.triu(m, k)\<close> of a two-dimensional array: the entries on and above the \<open>k\<close>-th
  diagonal (those with \<open>i + k \<le> j\<close>) are kept, every other entry becomes \<open>0\<close>.
\<close>

definition np_triu :: "matrix \<Rightarrow> nat \<Rightarrow> matrix" where
  "np_triu m k =
     map (\<lambda>(i, row). map (\<lambda>(j, x). if i + k \<le> j then x else Finite 0) (enumerate 0 row))
       (enumerate 0 m)"

text \<open>\<open>m > selection_threshold\<close>: the array of booleans.\<close>

definition np_greater :: "matrix \<Rightarrow> real \<Rightarrow> bool list list" where
  "np_greater m t = map (map (\<lambda>x. float_gt x (Finite t))) m"

text \<open>\<open>np.where(bs)[0]\<close> of a one-dimensional boolean array: the indices of its true
  entries, ascending.\<close>

definition np_where1 :: "bool list \<Rightarrow> nat list" where
  "np_where1 bs = map fst (filter snd (enumerate 0 bs))"

text \<open>\<open>np.column_stack(np.where(bs))\<close> of a two-dimensional boolean array: the index pairs
  of its true entries, in row-major order.\<close>

definition column_stack_where :: "bool list list \<Rightarrow> (nat \<times> nat) list" where
  "column_stack_where bs =
     concat (map (\<lambda>(i, row). map (Pair i) (np_where1 row)) (enumerate 0 bs))"

subsection \<open>The correlated pairs and the strict policy\<close>

text \<open>
  Lines 147-148, for a two-dimensional correlation matrix:
  \<^verbatim>\<open>combs_above_cutoff = np.triu(corr_matrix, k=1) > selection_threshold\<close>
  \<^verbatim>\<open>correlated_pairs = np.column_stack(np.where(combs_above_cutoff))\<close>
\<close>

definition correlated_pairs :: "matrix \<Rightarrow> real \<Rightarrow> (nat \<times> nat) list" where
  "correlated_pairs corr_matrix selection_threshold =
     (let combs_above_cutoff = np_greater (np_triu corr_matrix 1) selection_threshold
      in column_stack_where combs_above_cutoff)"

text \<open>
  Lines 155-159, the loop of the strict mode over the pairs, with the set
  \<open>index_to_remove\<close> as accumulator:
  \<^verbatim>\<open>if col_means[i] > col_means[j]: index_to_remove.add(i)\<close>
  \<^verbatim>\<open>else: index_to_remove.add(j)\<close>
  The indices come from \<open>np.where\<close> on the square correlation matrix, so both reads of
  \<open>col_means\<close> are in range there.
\<close>

fun strict_loop :: "float64 list \<Rightarrow> (nat \<times> nat) list \<Rightarrow> nat set \<Rightarrow> nat set" where
  "strict_loop col_means [] index_to_remove = index_to_remove"
| "strict_loop col_means ((i, j) # pairs) index_to_remove =
     strict_loop col_means pairs
       (if float_gt (col_means ! i) (col_means ! j) then insert i index_to_remove
        else insert j index_to_remove)"

subsection \<open>The maximal-independent-set finder\<close>

text \<open>
  \<open>find_maximal_independent_set\<close> is imported from \<open>fslite.fs.utils\<close>, which is not among
  the sources. The definitions of this subsection follow section 4.2a of the
  specification.
\<close>

text \<open>Modelled from the spec: two nodes are neighbours when a correlated pair joins
  them (the graph is undirected).\<close>

definition adjacent :: "(nat \<times> nat) list \<Rightarrow> nat \<Rightarrow> nat \<Rightarrow> bool" where
  "adjacent edges u v = ((u, v) \<in> set edges \<or> (v, u) \<in> set edges)"

text \<open>Modelled from the spec: the remaining degree of a node, the number of its
  neighbours still under consideration.\<close>

definition remaining_degree :: "(nat \<times> nat) list \<Rightarrow> nat list \<Rightarrow> nat \<Rightarrow> nat" where
  "remaining_degree edges remaining v =
     length [u \<leftarrow> remaining. u \<noteq> v \<and> adjacent edges v u]"

text \<open>
  Modelled from the spec: the greedy strategy of \<open>find_maximal_independent_set\<close>,
  "repeatedly pick a node of minimum remaining degree, add it to the independent set,
  remove it and all its neighbors from further consideration, until no nodes remain",
  with the tie-break the specification suggests: on the ascending list of remaining
  nodes the first node of minimum degree, that is the lowest index, wins.
\<close>

function greedy_independent_set :: "(nat \<times> nat) list \<Rightarrow> nat list \<Rightarrow> nat list" where
  "greedy_independent_set edges [] = []"
| "greedy_independent_set edges (x # xs) =
     (let v = arg_min_list (remaining_degree edges (x # xs)) (x # xs)
      in v # greedy_independent_set edges [u \<leftarrow> x # xs. u \<noteq> v \<and> \<not> adjacent edges v u])"
  by pat_completeness auto
termination
proof (relation "measure (\<lambda>(edges, remaining). length remaining)")
  show "wf (measure (\<lambda>(edges, remaining). length remaining))"
    by simp
next
  fix edges :: "(nat \<times> nat) list" and x :: nat and xs :: "nat list" and v :: nat
  assume v: "v = arg_min_list (remaining_degree edges (x # xs)) (x # xs)"
  have "v \<in> set (x # xs)"
    unfolding v by (rule arg_min_list_in) simp
  then have "length [u \<leftarrow> x # xs. u \<noteq> v \<and> \<not> adjacent edges v u] < length (x # xs)"
    by (rule length_filter_less) simp
  then show "((edges, [u \<leftarrow> x # xs. u \<noteq> v \<and> \<not> adjacent edges v u]), (edges, x # xs))
      \<in> measure (\<lambda>(edges, remaining). length remaining)"
    by simp
qed

declare greedy_independent_set.simps [simp del]

text \<open>
  Modelled from the spec: \<open>find_maximal_independent_set(pairs, keep)\<close>. The node universe
  is the set of indices that occur in a pair. With \<open>keep\<close> the independent set itself is
  returned, otherwise its complement within the node universe.
\<close>

definition find_maximal_independent_set :: "(nat \<times> nat) list \<Rightarrow> bool \<Rightarrow> nat list" where
  "find_maximal_independent_set pairs keep =
     (let nodes = sort (remdups (map fst pairs @ map snd pairs));
          max_ind_set = greedy_independent_set pairs nodes
      in if keep then max_ind_set else [i \<leftarrow> nodes. i \<notin> set max_ind_set])"

subsection \<open>The correlation selector\<close>

text \<open>
  Lines 151-166: the Drop Set \<open>index_to_remove\<close> of a selection mode, or the
  \<open>ValueError\<close> of the final \<open>else\<close>. In strict mode the means are computed once,
  \<open>col_means = np.mean(corr_matrix, axis=1)\<close>, before the loop; \<open>np_mean\<close> stands for
  that call.
\<close>

definition index_to_remove ::
  "(matrix \<Rightarrow> float64 list) \<Rightarrow> string \<Rightarrow> matrix \<Rightarrow> real \<Rightarrow> error + nat set" where
  "index_to_remove np_mean selection_mode corr_matrix selection_threshold =
     (if selection_mode = ''strict'' then
        (let col_means = np_mean corr_matrix
         in Inr (strict_loop col_means (correlated_pairs corr_matrix selection_threshold) {}))
      else if selection_mode = ''approximate'' then
        Inr (set (find_maximal_independent_set
                    (correlated_pairs corr_matrix selection_threshold) False))
      else Inl (UnsupportedSelectionMode selection_mode))"

text \<open>
  Lines 134-141: the value of the correlation call of the chosen method, or the
  \<open>ValueError\<close> of an unsupported one.
\<close>

definition correlation_matrix ::
  "(matrix \<Rightarrow> error + ndarray) \<Rightarrow> (matrix \<Rightarrow> error + ndarray) \<Rightarrow> string \<Rightarrow> matrix
     \<Rightarrow> error + ndarray" where
  "correlation_matrix corrcoef spearmanr corr_method f_matrix =
     (if corr_method = ''pearson'' then corrcoef f_matrix
      else if corr_method = ''spearman'' then spearmanr f_matrix
      else Inl (UnsupportedCorrMethod corr_method))"

text \<open>
  \<open>multivariate_correlation_selector(fsdf, selection_mode, selection_threshold,
  corr_method)\<close>, lines 109-171, in the order of the source: the feature indices, the
  correlation call, the absolute values, the pairs above the threshold, the Drop Set
  of the selection mode, and the indices that are not in it.

  When the correlation call returns a zero-dimensional value, \<open>np.abs\<close> at line 144
  returns a zero-dimensional value again and \<open>np.triu\<close> at line 147 raises
  \<open>TypeError\<close>: it needs the last two dimensions of its argument. The selection mode
  is looked at only after that line.
\<close>

definition multivariate_correlation_selector ::
  "(matrix \<Rightarrow> error + ndarray) \<Rightarrow> (matrix \<Rightarrow> error + ndarray) \<Rightarrow> (matrix \<Rightarrow> float64 list)
     \<Rightarrow> matrix \<Rightarrow> string \<Rightarrow> real \<Rightarrow> string \<Rightarrow> error + nat list" where
  "multivariate_correlation_selector corrcoef spearmanr np_mean f_matrix selection_mode
       selection_threshold corr_method =
     (let features_indexes = [0..<shape1 f_matrix]
      in case correlation_matrix corrcoef spearmanr corr_method f_matrix of
           Inl e \<Rightarrow> Inl e
         | Inr (Scalar r) \<Rightarrow> Inl (TypeError ''triu'')
         | Inr (Array2 c) \<Rightarrow>
             (let corr_matrix = np_abs c
              in case index_to_remove np_mean selection_mode corr_matrix selection_threshold of
                   Inl e \<Rightarrow> Inl e
                 | Inr drop_set \<Rightarrow> Inr [i \<leftarrow> features_indexes. i \<notin> drop_set]))"

subsection \<open>The variance selector\<close>


subsection \<open>Notions used by the properties\<close>

text \<open>An \<open>n \<times> n\<close> array: the shape of the correlation matrix of \<open>n\<close> features.\<close>

definition square_matrix :: "nat \<Rightarrow> matrix \<Rightarrow> bool" where
  "square_matrix n m = (length m = n \<and> list_all (\<lambda>row. length row = n) m)"

text \<open>
  A correlation matrix of six features (symmetric, unit diagonal, strictly diagonally
  dominant, hence positive definite): features 0-1, 0-2, 1-3, 2-3, 3-4, 3-5 and 4-5
  correlate at \<open>1/5\<close>, features 0-3 at \<open>1/10\<close>, every other pair not at all.
\<close>

definition example_matrix :: matrix where
  "example_matrix = finite_matrix
    [[1,    1/5,  1/5,  1/10, 0,    0],
     [1/5,  1,    0,    1/5,  0,    0],
     [1/5,  0,    1,    1/5,  0,    0],
     [1/10, 1/5,  1/5,  1,    1/5,  1/5],
     [0,    0,    0,    1/5,  1,    1/5],
     [0,    0,    0,    1/5,  1/5,  1]]"

text \<open>
  Three runs of the correlation selector with \<open>corr_method = 'pearson'\<close>, each with
  the feature matrix, the value of \<open>np.corrcoef(f_matrix, rowvar=False)\<close> and the value
  of \<open>np.mean(np.abs(.), axis=1)\<close> on it.

  In the first two runs every intermediate value of the correlation (column means,
  centred values, products, the division by \<open>N - 1\<close>, the standard deviations \<open>1\<close>) is an
  integer or a binary fraction, so that the floating-point computation is exact; only the
  division by three in the row means of the first run rounds, and the means given are
  the rounded values.
\<close>

definition run1_f_matrix :: matrix where
  "run1_f_matrix = finite_matrix [[2, 2, 2], [2, 0, 2], [0, 2, 0], [0, 0, 1], [1, 1, 0]]"

definition run1_corrcoef :: matrix where
  "run1_corrcoef = finite_matrix [[1, 0, 3/4], [0, 1, - 1/4], [3/4, - 1/4, 1]]"

definition run1_col_means :: "float64 list" where
  "run1_col_means =
     [Finite (5254199565265579 / 2 ^ 53), Finite (7505999378950827 / 2 ^ 54),
      Finite (6004799503160661 / 2 ^ 53)]"

definition run2_f_matrix :: matrix where
  "run2_f_matrix = finite_matrix [[1, 1], [2, 3], [3, 2]]"

definition run2_corrcoef :: matrix where
  "run2_corrcoef = finite_matrix [[1, 1/2], [1/2, 1]]"

definition run2_col_means :: "float64 list" where
  "run2_col_means = [Finite (3/4), Finite (3/4)]"

text \<open>
  In the third run the second feature is constant: its standard deviation is \<open>0\<close>, the
  divisions \<open>0 / 0\<close> give NaN (with a warning, not an exception), and every row mean is
  NaN.
\<close>

definition run3_f_matrix :: matrix where
  "run3_f_matrix = finite_matrix [[1, 5], [2, 5], [3, 5]]"

definition run3_corrcoef :: matrix where
  "run3_corrcoef = [[Finite 1, NaN], [NaN, NaN]]"

definition run3_col_means :: "float64 list" where
  "run3_col_means = [NaN, NaN]"

text \<open>A feature matrix with a single column, and one with three samples and no column.\<close>

definition one_column :: matrix where
  "one_column = finite_matrix [[1], [2], [3]]"

definition no_column :: matrix where
  "no_column = [[], [], []]"

section \<open>Values and array operations\<close>



lemma float_gt_threshold_mono:
  assumes "t1 \<le> t2" "float_gt v (Finite t2)"
  shows "float_gt v (Finite t1)"
  using assms by (cases v) simp_all

lemma float_gt_zero_nonneg: "0 \<le> t \<Longrightarrow> \<not> float_gt (Finite 0) (Finite t)"
  by simp

lemma np_where1_eq: "np_where1 bs = [i \<leftarrow> [0..<length bs]. bs ! i]"
proof (induction bs rule: rev_induct)
  case Nil
  show ?case by (simp add: np_where1_def)
next
  case (snoc b bs)
  have "[i \<leftarrow> [0..<length bs]. (bs @ [b]) ! i] = [i \<leftarrow> [0..<length bs]. bs ! i]"
    by (rule filter_cong) (auto simp: nth_append)
  with snoc show ?case
    by (simp add: np_where1_def enumerate_append_eq)
qed

lemma set_np_where1: "set (np_where1 bs) = {j. j < length bs \<and> bs ! j}"
  by (auto simp: np_where1_eq)

lemma set_column_stack_where:
  "set (column_stack_where bs) = {(i, j). i < length bs \<and> j < length (bs ! i) \<and> bs ! i ! j}"
proof -
  have enum: "set (enumerate 0 bs) = (\<lambda>i. (i, bs ! i)) ` {i. i < length bs}"
    by (auto simp: in_set_enumerate_eq image_iff)
  show ?thesis
    unfolding column_stack_where_def set_concat set_map enum
    by (auto simp: set_np_where1)
qed

lemma length_np_triu: "length (np_triu m k) = length m"
  by (simp add: np_triu_def)

lemma nth_np_triu:
  assumes "i < length m"
  shows "np_triu m k ! i =
    map (\<lambda>(j, x). if i + k \<le> j then x else Finite 0) (enumerate 0 (m ! i))"
  using assms by (simp add: np_triu_def nth_enumerate_eq)

text \<open>
  The pairs the resolver iterates over, for any threshold: an entry of the strict upper
  triangle is compared with the threshold, and so is the \<open>0\<close> that \<open>np.triu\<close> writes
  everywhere else.
\<close>

lemma set_correlated_pairs:
  "set (correlated_pairs corr_matrix t) =
     {(i, j). i < length corr_matrix \<and> j < length (corr_matrix ! i) \<and>
        float_gt (if i < j then corr_matrix ! i ! j else Finite 0) (Finite t)}"
  by (auto simp: correlated_pairs_def set_column_stack_where np_greater_def length_np_triu
      nth_np_triu nth_enumerate_eq)

lemma set_correlated_pairs_nonneg:
  assumes "0 \<le> t"
  shows "set (correlated_pairs corr_matrix t) =
     {(i, j). i < j \<and> i < length corr_matrix \<and> j < length (corr_matrix ! i) \<and>
        float_gt (corr_matrix ! i ! j) (Finite t)}"
  using assms by (auto simp: set_correlated_pairs split: if_splits)

lemma square_matrix_row:
  assumes "square_matrix n c" "i < n"
  shows "length (c ! i) = n"
  using assms by (simp add: square_matrix_def list_all_length)

lemma square_matrix_length: "square_matrix n c \<Longrightarrow> length c = n"
  by (simp add: square_matrix_def)

lemma nth_np_abs:
  assumes "i < length c" "j < length (c ! i)"
  shows "np_abs c ! i ! j = float_abs (c ! i ! j)"
  using assms by (simp add: np_abs_def)

lemma length_np_abs: "length (np_abs c) = length c"
  by (simp add: np_abs_def)

lemma length_nth_np_abs: "i < length c \<Longrightarrow> length (np_abs c ! i) = length (c ! i)"
  by (simp add: np_abs_def)

lemma correlated_pair_bounds:
  assumes "square_matrix n c" "(i, j) \<in> set (correlated_pairs (np_abs c) t)"
  shows "i < n" "j < n"
proof -
  from assms(2) have i: "i < length (np_abs c)" and j: "j < length (np_abs c ! i)"
    by (simp_all add: set_correlated_pairs)
  from i show "i < n"
    using assms(1) by (simp add: length_np_abs square_matrix_length)
  with j show "j < n"
    using assms(1) by (simp add: length_nth_np_abs square_matrix_length square_matrix_row)
qed

lemma above_threshold_is_pair:
  assumes "square_matrix n c" "i < j" "j < n" "float_gt (float_abs (c ! i ! j)) (Finite t)"
  shows "(i, j) \<in> set (correlated_pairs (np_abs c) t)"
proof -
  have i: "i < length c"
    using assms by (simp add: square_matrix_length)
  have j: "j < length (c ! i)"
    using assms by (simp add: square_matrix_row)
  show ?thesis
    using assms(2,4) i j
    by (simp add: set_correlated_pairs length_np_abs length_nth_np_abs nth_np_abs)
qed

section \<open>The strict policy\<close>

lemma strict_loop_eq:
  "strict_loop col_means pairs s =
     s \<union> (\<lambda>(i, j). if float_gt (col_means ! i) (col_means ! j) then i else j) ` set pairs"
  by (induction col_means pairs s rule: strict_loop.induct) auto

lemma index_to_remove_strict:
  "index_to_remove np_mean ''strict'' corr_matrix t =
     Inr ((\<lambda>(i, j). if float_gt (np_mean corr_matrix ! i) (np_mean corr_matrix ! j)
             then i else j) ` set (correlated_pairs corr_matrix t))"
  by (simp add: index_to_remove_def strict_loop_eq Let_def)

section \<open>The independent set\<close>

lemma adjacent_sym: "adjacent edges u v = adjacent edges v u"
  by (auto simp: adjacent_def)

lemma greedy_independent_set_Cons:
  "greedy_independent_set edges (x # xs) =
     arg_min_list (remaining_degree edges (x # xs)) (x # xs) #
     greedy_independent_set edges
       [u \<leftarrow> x # xs. u \<noteq> arg_min_list (remaining_degree edges (x # xs)) (x # xs) \<and>
          \<not> adjacent edges (arg_min_list (remaining_degree edges (x # xs)) (x # xs)) u]"
  by (simp only: greedy_independent_set.simps Let_def)

lemma greedy_independent_set_subset:
  "set (greedy_independent_set edges remaining) \<subseteq> set remaining"
proof (induction edges remaining rule: greedy_independent_set.induct)
  case (1 edges)
  show ?case by (simp only: greedy_independent_set.simps list.set empty_subsetI)
next
  case (2 edges x xs)
  define v where "v = arg_min_list (remaining_degree edges (x # xs)) (x # xs)"
  define rest where "rest = [u \<leftarrow> x # xs. u \<noteq> v \<and> \<not> adjacent edges v u]"
  have res: "greedy_independent_set edges (x # xs) = v # greedy_independent_set edges rest"
    unfolding v_def rest_def by (rule greedy_independent_set_Cons)
  have "v \<in> set (x # xs)"
    unfolding v_def by (rule arg_min_list_in) simp
  moreover have "set (greedy_independent_set edges rest) \<subseteq> set rest"
    unfolding rest_def using v_def by (rule "2.IH")
  moreover have "set rest \<subseteq> set (x # xs)"
    unfolding rest_def by (rule filter_is_subset)
  ultimately show ?case
    unfolding res by (simp only: set_simps) blast
qed

text \<open>No two nodes of the greedy set are neighbours.\<close>

lemma greedy_independent_set_independent:
  assumes "u \<in> set (greedy_independent_set edges remaining)"
    and "w \<in> set (greedy_independent_set edges remaining)"
    and "u \<noteq> w"
  shows "\<not> adjacent edges u w"
  using assms
proof (induction edges remaining rule: greedy_independent_set.induct)
  case (1 edges)
  then show ?case by (simp only: greedy_independent_set.simps list.set empty_iff)
next
  case (2 edges x xs)
  define v where "v = arg_min_list (remaining_degree edges (x # xs)) (x # xs)"
  define rest where "rest = [u \<leftarrow> x # xs. u \<noteq> v \<and> \<not> adjacent edges v u]"
  have res: "greedy_independent_set edges (x # xs) = v # greedy_independent_set edges rest"
    unfolding v_def rest_def by (rule greedy_independent_set_Cons)
  have sub: "set (greedy_independent_set edges rest) \<subseteq> set rest"
    by (rule greedy_independent_set_subset)
  have set_rest: "set rest = {y \<in> set (x # xs). y \<noteq> v \<and> \<not> adjacent edges v y}"
    unfolding rest_def by (rule set_filter)
  have away: "\<not> adjacent edges v y" if "y \<in> set (greedy_independent_set edges rest)" for y
    using that sub set_rest by blast
  have mem: "u = v \<or> u \<in> set (greedy_independent_set edges rest)"
      "w = v \<or> w \<in> set (greedy_independent_set edges rest)"
    using "2.prems"(1,2) unfolding res by (simp_all only: set_simps insert_iff)
  consider "u = v" | "w = v" | "u \<in> set (greedy_independent_set edges rest)"
      "w \<in> set (greedy_independent_set edges rest)"
    using mem by blast
  then show ?case
  proof cases
    case 1
    with mem "2.prems"(3) have "w \<in> set (greedy_independent_set edges rest)" by blast
    with away 1 show ?thesis by blast
  next
    case 2
    with mem "2.prems"(3) have "u \<in> set (greedy_independent_set edges rest)" by blast
    with away 2 show ?thesis using adjacent_sym [of edges u w] by blast
  next
    case 3
    show ?thesis
      using "2.IH" [OF v_def, folded rest_def, OF 3 "2.prems"(3)] .
  qed
qed

text \<open>Two nodes joined by a pair are never both outside the set to remove.\<close>

lemma find_maximal_independent_set_covers:
  assumes "(i, j) \<in> set pairs" "i \<noteq> j"
  shows "i \<in> set (find_maximal_independent_set pairs False)
       \<or> j \<in> set (find_maximal_independent_set pairs False)"
proof -
  define nodes where "nodes = sort (remdups (map fst pairs @ map snd pairs))"
  define mis where "mis = greedy_independent_set pairs nodes"
  have drop: "set (find_maximal_independent_set pairs False) = {k \<in> set nodes. k \<notin> set mis}"
    by (simp add: find_maximal_independent_set_def Let_def nodes_def mis_def)
  have "i \<in> set nodes" "j \<in> set nodes"
    using assms(1) by (force simp: nodes_def)+
  moreover have "adjacent pairs i j"
    using assms(1) by (simp add: adjacent_def)
  then have "\<not> (i \<in> set mis \<and> j \<in> set mis)"
    using greedy_independent_set_independent [of i pairs nodes j] assms(2)
    unfolding mis_def by blast
  ultimately show ?thesis
    unfolding drop by blast
qed

section \<open>The selector\<close>

lemma selector_Inr:
  assumes "correlation_matrix corrcoef spearmanr corr_method f_matrix = Inr (Array2 c)"
    and "index_to_remove np_mean selection_mode (np_abs c) t = Inr D"
  shows "multivariate_correlation_selector corrcoef spearmanr np_mean f_matrix selection_mode t
       corr_method = Inr [i \<leftarrow> [0..<shape1 f_matrix]. i \<notin> D]"
  using assms by (simp add: multivariate_correlation_selector_def)

lemma selector_Scalar:
  assumes "correlation_matrix corrcoef spearmanr corr_method f_matrix = Inr (Scalar r)"
  shows "multivariate_correlation_selector corrcoef spearmanr np_mean f_matrix selection_mode t
       corr_method = Inl (TypeError ''triu'')"
  using assms by (simp add: multivariate_correlation_selector_def)

lemma selector_Inl:
  assumes "correlation_matrix corrcoef spearmanr corr_method f_matrix = Inl e"
  shows "multivariate_correlation_selector corrcoef spearmanr np_mean f_matrix selection_mode t
       corr_method = Inl e"
  using assms by (simp add: multivariate_correlation_selector_def)

lemma index_to_remove_no_pairs:
  assumes "correlated_pairs corr_matrix t = []"
    and "selection_mode = ''strict'' \<or> selection_mode = ''approximate''"
  shows "index_to_remove np_mean selection_mode corr_matrix t = Inr {}"
  using assms
  by (auto simp: index_to_remove_def find_maximal_independent_set_def Let_def
      greedy_independent_set.simps(1))

text \<open>
  With a threshold that is not negative and no pair of distinct features above it,
  nothing is removed.
\<close>

lemma no_pair_above_selects_all:
  assumes cm: "correlation_matrix corrcoef spearmanr corr_method f_matrix = Inr (Array2 c)"
    and sq: "square_matrix n c"
    and t: "0 \<le> t"
    and mode: "selection_mode = ''strict'' \<or> selection_mode = ''approximate''"
    and none: "\<And>i j. i < j \<Longrightarrow> j < n \<Longrightarrow> \<not> float_gt (float_abs (c ! i ! j)) (Finite t)"
  shows "multivariate_correlation_selector corrcoef spearmanr np_mean f_matrix selection_mode t
       corr_method = Inr [0..<shape1 f_matrix]"
proof -
  have "set (correlated_pairs (np_abs c) t) = {}"
  proof (rule ccontr)
    assume "set (correlated_pairs (np_abs c) t) \<noteq> {}"
    then obtain i j where p: "(i, j) \<in> set (correlated_pairs (np_abs c) t)"
      by (cases "correlated_pairs (np_abs c) t") auto
    from sq p have b: "i < n" "j < n"
      by (rule correlated_pair_bounds)+
    then have len: "i < length c" "j < length (c ! i)"
      using sq by (simp_all add: square_matrix_length square_matrix_row)
    from p t have "i < j" "float_gt (np_abs c ! i ! j) (Finite t)"
      by (simp_all add: set_correlated_pairs_nonneg)
    with len have "i < j" "float_gt (float_abs (c ! i ! j)) (Finite t)"
      by (simp_all add: nth_np_abs)
    with none [of i j] b show False by simp
  qed
  then have "correlated_pairs (np_abs c) t = []" by simp
  then have "index_to_remove np_mean selection_mode (np_abs c) t = Inr {}"
    using mode by (rule index_to_remove_no_pairs)
  with cm show ?thesis
    by (simp add: selector_Inr)
qed

section \<open>The runs\<close>

lemmas array_eval = finite_matrix_def correlated_pairs_def np_abs_def np_greater_def np_triu_def
  column_stack_where_def np_where1_def

lemma square_run1: "square_matrix 3 run1_corrcoef"
  by (simp add: square_matrix_def run1_corrcoef_def finite_matrix_def)


lemma pairs_run1_half: "correlated_pairs (np_abs run1_corrcoef) (1/2) = [(0, 2)]"
  by (simp add: run1_corrcoef_def array_eval)

lemma pairs_run1_eighth: "correlated_pairs (np_abs run1_corrcoef) (1/8) = [(0, 2), (1, 2)]"
  by (simp add: run1_corrcoef_def array_eval)


lemma pairs_run2_negative:
  "correlated_pairs (np_abs run2_corrcoef) (- 1/2) = [(0, 0), (0, 1), (1, 0), (1, 1)]"
  by (simp add: run2_corrcoef_def array_eval)

lemma pairs_run3_negative:
  "correlated_pairs (np_abs run3_corrcoef) (- 1/2) = [(0, 0), (1, 0), (1, 1)]"
  by (simp add: run3_corrcoef_def array_eval)


section \<open>Properties of the strict mode\<close>



text \<open>
  C2. In strict mode, for every pair \<open>(i, j)\<close> with \<open>i < j\<close> whose absolute correlation
  strictly exceeds the threshold, at least one of \<open>i\<close> and \<open>j\<close> is in the Drop Set, and
  so at least one of them is absent from the Selected-Index List.
\<close>

theorem strict_coverage:
  assumes cm: "correlation_matrix corrcoef spearmanr corr_method f_matrix = Inr (Array2 c)"
    and sq: "square_matrix n c"
    and ij: "i < j" "j < n"
    and above: "float_gt (float_abs (c ! i ! j)) (Finite selection_threshold)"
  shows "\<exists>D sel. index_to_remove np_mean ''strict'' (np_abs c) selection_threshold = Inr D \<and>
      (i \<in> D \<or> j \<in> D) \<and>
      multivariate_correlation_selector corrcoef spearmanr np_mean f_matrix ''strict''
        selection_threshold corr_method = Inr sel \<and>
      \<not> (i \<in> set sel \<and> j \<in> set sel)"
proof -
  define pick where
    "pick = (\<lambda>(a, b). if float_gt (np_mean (np_abs c) ! a) (np_mean (np_abs c) ! b) then a else b)"
  define D where "D = pick ` set (correlated_pairs (np_abs c) selection_threshold)"
  have D: "index_to_remove np_mean ''strict'' (np_abs c) selection_threshold = Inr D"
    unfolding D_def pick_def by (rule index_to_remove_strict)
  have "(i, j) \<in> set (correlated_pairs (np_abs c) selection_threshold)"
    using sq ij above by (rule above_threshold_is_pair)
  then have "pick (i, j) \<in> D"
    unfolding D_def by (rule imageI)
  then have in_D: "i \<in> D \<or> j \<in> D"
    by (auto simp: pick_def split: if_splits)
  have sel: "multivariate_correlation_selector corrcoef spearmanr np_mean f_matrix ''strict''
        selection_threshold corr_method = Inr [k \<leftarrow> [0..<shape1 f_matrix]. k \<notin> D]"
    using cm D by (rule selector_Inr)
  from in_D have "\<not> (i \<in> set [k \<leftarrow> [0..<shape1 f_matrix]. k \<notin> D]
      \<and> j \<in> set [k \<leftarrow> [0..<shape1 f_matrix]. k \<notin> D])"
    by auto
  with D in_D sel show ?thesis by blast
qed

text \<open>
  The first run with the threshold \<open>1/8\<close>: features 1 and 2 correlate at \<open>1/4\<close>.
\<close>

theorem strict_coverage_witness:
  "\<exists>D sel. index_to_remove (\<lambda>m. run1_col_means) ''strict'' (np_abs run1_corrcoef) (1/8) = Inr D \<and>
      (1 \<in> D \<or> 2 \<in> D) \<and>
      multivariate_correlation_selector (\<lambda>m. Inr (Array2 run1_corrcoef))
        (\<lambda>m. Inl (LibraryError ''not called'')) (\<lambda>m. run1_col_means) run1_f_matrix ''strict''
        (1/8) ''pearson'' = Inr sel \<and>
      \<not> (1 \<in> set sel \<and> 2 \<in> set sel)"
proof (rule strict_coverage [where n = 3])
  show "correlation_matrix (\<lambda>m. Inr (Array2 run1_corrcoef))
      (\<lambda>m. Inl (LibraryError ''not called'')) ''pearson'' run1_f_matrix
      = Inr (Array2 run1_corrcoef)"
    by (simp add: correlation_matrix_def)
  show "square_matrix 3 run1_corrcoef"
    by (rule square_run1)
  show "(1 :: nat) < 2" "(2 :: nat) < 3"
    by simp_all
  show "float_gt (float_abs (run1_corrcoef ! 1 ! 2)) (Finite (1/8))"
    by (simp add: run1_corrcoef_def finite_matrix_def)
qed



section \<open>Properties of the approximate mode\<close>

text \<open>
  C3. In approximate mode, any two features \<open>i < j\<close> that are both in the
  Selected-Index List are not above-threshold correlated: their absolute correlation
  does not exceed the threshold, and when it is a number it is at most the threshold.
  The independent-set finder is the one modelled from the specification.
\<close>

theorem approximate_kept_features_independent:
  assumes cm: "correlation_matrix corrcoef spearmanr corr_method f_matrix = Inr (Array2 c)"
    and sq: "square_matrix (shape1 f_matrix) c"
    and sel: "multivariate_correlation_selector corrcoef spearmanr np_mean f_matrix
        ''approximate'' selection_threshold corr_method = Inr sel"
    and kept: "i \<in> set sel" "j \<in> set sel"
    and ij: "i < j"
  shows "\<not> float_gt (float_abs (c ! i ! j)) (Finite selection_threshold) \<and>
      (\<forall>x. c ! i ! j = Finite x \<longrightarrow> \<bar>x\<bar> \<le> selection_threshold)"
proof -
  have not_above: "\<not> float_gt (float_abs (c ! i ! j)) (Finite selection_threshold)"
  proof
    assume above: "float_gt (float_abs (c ! i ! j)) (Finite selection_threshold)"
    define pairs where "pairs = correlated_pairs (np_abs c) selection_threshold"
    have D: "index_to_remove np_mean ''approximate'' (np_abs c) selection_threshold
        = Inr (set (find_maximal_independent_set pairs False))"
      by (simp add: index_to_remove_def pairs_def)
    have "multivariate_correlation_selector corrcoef spearmanr np_mean f_matrix ''approximate''
          selection_threshold corr_method
        = Inr [k \<leftarrow> [0..<shape1 f_matrix]. k \<notin> set (find_maximal_independent_set pairs False)]"
      using cm D by (rule selector_Inr)
    with sel have sel_eq:
      "sel = [k \<leftarrow> [0..<shape1 f_matrix]. k \<notin> set (find_maximal_independent_set pairs False)]"
      by simp
    from kept(2) have "j < shape1 f_matrix"
      by (simp add: sel_eq)
    with sq ij have "(i, j) \<in> set pairs"
      unfolding pairs_def using above by (intro above_threshold_is_pair)
    moreover from ij have "i \<noteq> j"
      by simp
    ultimately have "i \<in> set (find_maximal_independent_set pairs False)
        \<or> j \<in> set (find_maximal_independent_set pairs False)"
      by (rule find_maximal_independent_set_covers)
    with kept show False
      by (simp add: sel_eq)
  qed
  then have "\<bar>x\<bar> \<le> selection_threshold" if "c ! i ! j = Finite x" for x
    using that by simp
  with not_above show ?thesis
    by blast
qed

text \<open>
  The first run in approximate mode with the threshold \<open>1/2\<close>: the only pair above the
  threshold is 0-2, the finder keeps feature 0 and removes feature 2, and the kept
  features 0 and 1 do not correlate.
\<close>

theorem approximate_kept_features_independent_witness:
  "multivariate_correlation_selector (\<lambda>m. Inr (Array2 run1_corrcoef))
      (\<lambda>m. Inl (LibraryError ''not called'')) (\<lambda>m. run1_col_means) run1_f_matrix
      ''approximate'' (1/2) ''pearson'' = Inr [0, 1] \<and>
   \<not> float_gt (float_abs (run1_corrcoef ! 0 ! 1)) (Finite (1/2)) \<and>
   run1_corrcoef ! 0 ! 1 = Finite 0 \<and> \<bar>0 :: real\<bar> \<le> 1/2"
proof -
  let ?cc = "\<lambda>m :: matrix. Inr (Array2 run1_corrcoef) :: error + ndarray"
  let ?sp = "\<lambda>m :: matrix. Inl (LibraryError ''not called'') :: error + ndarray"
  have cm: "correlation_matrix ?cc ?sp ''pearson'' run1_f_matrix = Inr (Array2 run1_corrcoef)"
    by (simp add: correlation_matrix_def)
  have n: "shape1 run1_f_matrix = 3"
    by (simp add: shape1_def run1_f_matrix_def finite_matrix_def)
  have sq: "square_matrix (shape1 run1_f_matrix) run1_corrcoef"
    unfolding n by (rule square_run1)
  have mis: "find_maximal_independent_set [(0, 2)] False = [2]"
    by code_simp
  have D: "index_to_remove (\<lambda>m. run1_col_means) ''approximate'' (np_abs run1_corrcoef) (1/2)
      = Inr {2}"
    unfolding index_to_remove_def pairs_run1_half mis by simp
  have sel: "multivariate_correlation_selector ?cc ?sp (\<lambda>m. run1_col_means) run1_f_matrix
      ''approximate'' (1/2) ''pearson'' = Inr [0, 1]"
    unfolding selector_Inr [OF cm D] n by (simp add: upt_rec)
  have entry: "run1_corrcoef ! 0 ! 1 = Finite 0"
    by (simp add: run1_corrcoef_def finite_matrix_def)
  from approximate_kept_features_independent [OF cm sq sel, of 0 1]
  have "\<not> float_gt (float_abs (run1_corrcoef ! 0 ! 1)) (Finite (1/2))"
    and "\<forall>x. run1_corrcoef ! 0 ! 1 = Finite x \<longrightarrow> \<bar>x\<bar> \<le> 1/2"
    by simp_all
  with entry sel show ?thesis
    by simp
qed

section \<open>Threshold monotonicity\<close>

text \<open>
  C5, as amended. In strict mode, for one correlation matrix, raising the threshold
  never adds to the Drop Set: the Drop Set of the higher threshold is a subset of the
  Drop Set of the lower one, so it is no larger. The approximate mode has no such
  guarantee.
\<close>

theorem strict_threshold_monotone:
  assumes "t1 \<le> t2"
  shows "\<exists>D1 D2. index_to_remove np_mean ''strict'' corr_matrix t1 = Inr D1 \<and>
      index_to_remove np_mean ''strict'' corr_matrix t2 = Inr D2 \<and>
      D2 \<subseteq> D1 \<and> finite D1 \<and> card D2 \<le> card D1"
proof -
  let ?pick = "\<lambda>(i, j). if float_gt (np_mean corr_matrix ! i) (np_mean corr_matrix ! j)
      then i else j"
  let ?D = "\<lambda>t. ?pick ` set (correlated_pairs corr_matrix t)"
  have D: "index_to_remove np_mean ''strict'' corr_matrix t = Inr (?D t)" for t
    by (rule index_to_remove_strict)
  have "set (correlated_pairs corr_matrix t2) \<subseteq> set (correlated_pairs corr_matrix t1)"
  proof
    fix p
    assume p: "p \<in> set (correlated_pairs corr_matrix t2)"
    obtain i j where ij: "p = (i, j)"
      by (cases p)
    from p have "i < length corr_matrix" "j < length (corr_matrix ! i)"
        "float_gt (if i < j then corr_matrix ! i ! j else Finite 0) (Finite t2)"
      by (simp_all add: ij set_correlated_pairs)
    moreover from this(3) have
      "float_gt (if i < j then corr_matrix ! i ! j else Finite 0) (Finite t1)"
      by (rule float_gt_threshold_mono [OF assms])
    ultimately show "p \<in> set (correlated_pairs corr_matrix t1)"
      by (simp add: ij set_correlated_pairs)
  qed
  then have sub: "?D t2 \<subseteq> ?D t1"
    by (rule image_mono)
  have fin: "finite (?D t1)"
    by simp
  from sub fin have "card (?D t2) \<le> card (?D t1)"
    by (simp add: card_mono)
  with D [of t1] D [of t2] sub fin show ?thesis
    by blast
qed

text \<open>The second run with the thresholds \<open>1/4\<close> and \<open>3/4\<close>.\<close>

theorem strict_threshold_monotone_witness:
  "\<exists>D1 D2. index_to_remove (\<lambda>m. run2_col_means) ''strict'' (np_abs run2_corrcoef) (1/4) = Inr D1 \<and>
      index_to_remove (\<lambda>m. run2_col_means) ''strict'' (np_abs run2_corrcoef) (3/4) = Inr D2 \<and>
      D2 \<subseteq> D1 \<and> finite D1 \<and> card D2 \<le> card D1"
  by (rule strict_threshold_monotone) simp

text \<open>
  C5 as stated fails in approximate mode. On \<open>example_matrix\<close> the threshold \<open>1/20\<close>
  keeps the weak pair 0-3: feature 0 then has three neighbours, the greedy finder starts
  from feature 1, finds the independent set \<open>{1, 2, 4}\<close> and removes three features. The
  higher threshold \<open>3/20\<close> drops the pair 0-3: all nodes but 3 now have degree two, the
  finder starts from feature 0, finds only \<open>{0, 3}\<close> and removes four features. (The
  approximate mode does not call \<open>np.mean\<close>.)
\<close>

theorem approximate_not_monotone:
  "(1/20 :: real) \<le> 3/20 \<and>
   index_to_remove (\<lambda>m. []) ''approximate'' (np_abs example_matrix) (1/20) = Inr {0, 3, 5} \<and>
   index_to_remove (\<lambda>m. []) ''approximate'' (np_abs example_matrix) (3/20) = Inr {1, 2, 4, 5} \<and>
   card {0, 3, 5 :: nat} < card {1, 2, 4, 5 :: nat}"
proof -
  have low: "correlated_pairs (np_abs example_matrix) (1/20)
      = [(0, 1), (0, 2), (0, 3), (1, 3), (2, 3), (3, 4), (3, 5), (4, 5)]"
    by (simp add: example_matrix_def array_eval)
  have high: "correlated_pairs (np_abs example_matrix) (3/20)
      = [(0, 1), (0, 2), (1, 3), (2, 3), (3, 4), (3, 5), (4, 5)]"
    by (simp add: example_matrix_def array_eval)
  have mis_low: "find_maximal_independent_set
      [(0, 1), (0, 2), (0, 3), (1, 3), (2, 3), (3, 4), (3, 5), (4, 5)] False = [0, 3, 5]"
    by code_simp
  have mis_high: "find_maximal_independent_set
      [(0, 1), (0, 2), (1, 3), (2, 3), (3, 4), (3, 5), (4, 5)] False = [1, 2, 4, 5]"
    by code_simp
  have "index_to_remove (\<lambda>m. []) ''approximate'' (np_abs example_matrix) (1/20) = Inr {0, 3, 5}"
    unfolding index_to_remove_def low mis_low by simp
  moreover have "index_to_remove (\<lambda>m. []) ''approximate'' (np_abs example_matrix) (3/20)
      = Inr {1, 2, 4, 5}"
    unfolding index_to_remove_def high mis_high by simp
  ultimately show ?thesis
    by simp
qed

section \<open>The variance selector\<close>


section \<open>Degenerate input and validation\<close>

text \<open>
  C6, as amended. The selector has no special path for a feature matrix with fewer than
  two columns: the correlation is requested as for any other input. An exception of that
  call is the selector's result (\<open>spearmanr\<close> raises \<open>IndexError\<close> on a single column). A
  zero-dimensional value, which is what \<open>np.corrcoef\<close> returns for a single column, makes
  \<open>np.triu\<close> raise \<open>TypeError\<close>. The empty matrix, which is what \<open>np.corrcoef\<close> returns
  for no column, yields the empty list, the full list of the indices of no feature.
\<close>

theorem degenerate_input_general_path:
  assumes few: "shape1 f_matrix < 2"
  shows "(correlation_matrix corrcoef spearmanr corr_method f_matrix = Inl e \<longrightarrow>
        multivariate_correlation_selector corrcoef spearmanr np_mean f_matrix selection_mode
          selection_threshold corr_method = Inl e) \<and>
      (correlation_matrix corrcoef spearmanr corr_method f_matrix = Inr (Scalar r) \<longrightarrow>
        multivariate_correlation_selector corrcoef spearmanr np_mean f_matrix selection_mode
          selection_threshold corr_method = Inl (TypeError ''triu'')) \<and>
      (correlation_matrix corrcoef spearmanr corr_method f_matrix = Inr (Array2 []) \<and>
        shape1 f_matrix = 0 \<and>
        (selection_mode = ''strict'' \<or> selection_mode = ''approximate'') \<longrightarrow>
        multivariate_correlation_selector corrcoef spearmanr np_mean f_matrix selection_mode
          selection_threshold corr_method = Inr [])"
proof (intro conjI impI)
  assume "correlation_matrix corrcoef spearmanr corr_method f_matrix = Inl e"
  then show "multivariate_correlation_selector corrcoef spearmanr np_mean f_matrix selection_mode
      selection_threshold corr_method = Inl e"
    by (rule selector_Inl)
next
  assume "correlation_matrix corrcoef spearmanr corr_method f_matrix = Inr (Scalar r)"
  then show "multivariate_correlation_selector corrcoef spearmanr np_mean f_matrix selection_mode
      selection_threshold corr_method = Inl (TypeError ''triu'')"
    by (rule selector_Scalar)
next
  assume a: "correlation_matrix corrcoef spearmanr corr_method f_matrix = Inr (Array2 []) \<and>
      shape1 f_matrix = 0 \<and>
      (selection_mode = ''strict'' \<or> selection_mode = ''approximate'')"
  have "correlated_pairs (np_abs []) selection_threshold = []"
    by (simp add: array_eval)
  then have "index_to_remove np_mean selection_mode (np_abs []) selection_threshold = Inr {}"
    using a by (intro index_to_remove_no_pairs) simp_all
  with a show "multivariate_correlation_selector corrcoef spearmanr np_mean f_matrix
      selection_mode selection_threshold corr_method = Inr []"
    by (simp add: selector_Inr)
qed

text \<open>
  Three runs: a single column with \<open>spearman\<close>, a single column with \<open>pearson\<close> (the
  column has variance \<open>1\<close> and the zero-dimensional value is \<open>1\<close>), and no column
  with \<open>pearson\<close>.
\<close>

theorem degenerate_input_general_path_witness:
  "multivariate_correlation_selector (\<lambda>m. Inr (Scalar (Finite 1)))
      (\<lambda>m. Inl (LibraryError ''IndexError'')) (\<lambda>m. []) one_column ''strict'' (3/4) ''spearman''
     = Inl (LibraryError ''IndexError'') \<and>
   multivariate_correlation_selector (\<lambda>m. Inr (Scalar (Finite 1)))
      (\<lambda>m. Inl (LibraryError ''IndexError'')) (\<lambda>m. []) one_column ''approximate'' (3/4) ''pearson''
     = Inl (TypeError ''triu'') \<and>
   multivariate_correlation_selector (\<lambda>m. Inr (Array2 []))
      (\<lambda>m. Inl (LibraryError ''not called'')) (\<lambda>m. []) no_column ''strict'' (3/4) ''pearson''
     = Inr []"
proof (intro conjI)
  let ?cc = "\<lambda>m :: matrix. Inr (Scalar (Finite 1)) :: error + ndarray"
  let ?sp = "\<lambda>m :: matrix. Inl (LibraryError ''IndexError'') :: error + ndarray"
  let ?c0 = "\<lambda>m :: matrix. Inr (Array2 []) :: error + ndarray"
  let ?s0 = "\<lambda>m :: matrix. Inl (LibraryError ''not called'') :: error + ndarray"
  have one: "shape1 one_column < 2"
    by (simp add: shape1_def one_column_def finite_matrix_def)
  have none: "shape1 no_column < 2"
    by (simp add: shape1_def no_column_def)
  have raised: "correlation_matrix ?cc ?sp ''spearman'' one_column
      = Inl (LibraryError ''IndexError'')"
    by (simp add: correlation_matrix_def)
  show "multivariate_correlation_selector ?cc ?sp (\<lambda>m. []) one_column ''strict'' (3/4) ''spearman''
      = Inl (LibraryError ''IndexError'')"
    by (rule degenerate_input_general_path [OF one, THEN conjunct1, THEN mp, OF raised])
  have scalar: "correlation_matrix ?cc ?sp ''pearson'' one_column = Inr (Scalar (Finite 1))"
    by (simp add: correlation_matrix_def)
  show "multivariate_correlation_selector ?cc ?sp (\<lambda>m. []) one_column ''approximate'' (3/4)
      ''pearson'' = Inl (TypeError ''triu'')"
    by (rule degenerate_input_general_path
        [OF one, THEN conjunct2, THEN conjunct1, THEN mp, OF scalar])
  have empty: "correlation_matrix ?c0 ?s0 ''pearson'' no_column = Inr (Array2 []) \<and>
      shape1 no_column = 0 \<and> (''strict'' = ''strict'' \<or> ''strict'' = ''approximate'')"
    by (simp add: correlation_matrix_def shape1_def no_column_def)
  show "multivariate_correlation_selector ?c0 ?s0 (\<lambda>m. []) no_column ''strict'' (3/4) ''pearson''
      = Inr []"
    by (rule degenerate_input_general_path
        [OF none, THEN conjunct2, THEN conjunct2, THEN mp, OF empty])
qed

text \<open>
  C6 as stated fails. On a matrix with the single column \<open>[1, 2, 3]\<close>, with the default
  arguments, \<open>np.corrcoef\<close> returns the zero-dimensional value \<open>1\<close> and the selector
  raises \<open>TypeError\<close> at line 147 instead of returning \<open>[0]\<close>.
\<close>

theorem degenerate_input_not_short_circuited:
  "multivariate_correlation_selector (\<lambda>m. Inr (Scalar (Finite 1)))
      (\<lambda>m. Inl (LibraryError ''IndexError'')) (\<lambda>m. []) one_column ''strict'' (3/4) ''pearson''
     = Inl (TypeError ''triu'') \<and>
   shape1 one_column = 1 \<and>
   (Inl (TypeError ''triu'') :: error + nat list) \<noteq> Inr [0..<shape1 one_column]"
  by (simp add: multivariate_correlation_selector_def correlation_matrix_def shape1_def
      one_column_def finite_matrix_def)




section \<open>Negative thresholds\<close>

text \<open>
  C4. The pairs the resolver iterates over are meant to be the pairs \<open>(i, j)\<close> with
  \<open>i < j\<close> whose absolute correlation exceeds the threshold, and for a threshold that is
  not negative they are (\<open>set_correlated_pairs_nonneg\<close>). With a negative threshold the
  zeros that \<open>np.triu\<close> writes on and below the diagonal exceed the threshold as well:
  in the second run, two features with correlation \<open>1/2\<close>, the threshold \<open>- 1/2\<close> makes
  the resolver examine all four index pairs, the diagonal and the lower triangle
  included, and the strict mode removes both features.
\<close>

theorem negative_threshold_examines_lower_triangle:
  "correlated_pairs (np_abs run2_corrcoef) (- 1/2) = [(0, 0), (0, 1), (1, 0), (1, 1)] \<and>
   multivariate_correlation_selector (\<lambda>m. Inr (Array2 run2_corrcoef))
      (\<lambda>m. Inr (Scalar (Finite (1/2)))) (\<lambda>m. run2_col_means) run2_f_matrix ''strict'' (- 1/2)
      ''pearson'' = Inr []"
proof -
  have cm: "correlation_matrix (\<lambda>m. Inr (Array2 run2_corrcoef)) (\<lambda>m. Inr (Scalar (Finite (1/2))))
      ''pearson'' run2_f_matrix = Inr (Array2 run2_corrcoef)"
    by (simp add: correlation_matrix_def)
  have D: "index_to_remove (\<lambda>m. run2_col_means) ''strict'' (np_abs run2_corrcoef) (- 1/2)
      = Inr {0, 1}"
    unfolding index_to_remove_strict pairs_run2_negative
    by (auto simp: run2_col_means_def)
  have "multivariate_correlation_selector (\<lambda>m. Inr (Array2 run2_corrcoef))
      (\<lambda>m. Inr (Scalar (Finite (1/2)))) (\<lambda>m. run2_col_means) run2_f_matrix ''strict'' (- 1/2)
      ''pearson'' = Inr []"
    unfolding selector_Inr [OF cm D]
    by (simp add: shape1_def run2_f_matrix_def finite_matrix_def upt_rec)
  with pairs_run2_negative show ?thesis
    by simp
qed

text \<open>
  C9. A matrix without a pair of distinct features above the threshold is meant to come
  back with all its indices, and for a threshold that is not negative it does
  (\<open>no_pair_above_selects_all\<close>). In the third run the only correlation between distinct
  features is NaN, which exceeds no threshold. With the threshold \<open>- 1/2\<close> the zeros
  that \<open>np.triu\<close> writes exceed the threshold: the pairs \<open>(0, 0)\<close>, \<open>(1, 0)\<close> and \<open>(1, 1)\<close>
  are examined and the strict mode returns the empty list instead of \<open>[0, 1]\<close>.
\<close>

theorem negative_threshold_removes_uncorrelated_features:
  "\<not> float_gt (float_abs (run3_corrcoef ! 0 ! 1)) (Finite (- 1/2)) \<and>
   \<not> float_gt (float_abs (run3_corrcoef ! 1 ! 0)) (Finite (- 1/2)) \<and>
   correlated_pairs (np_abs run3_corrcoef) (- 1/2) = [(0, 0), (1, 0), (1, 1)] \<and>
   multivariate_correlation_selector (\<lambda>m. Inr (Array2 run3_corrcoef))
      (\<lambda>m. Inl (LibraryError ''not called'')) (\<lambda>m. run3_col_means) run3_f_matrix ''strict''
      (- 1/2) ''pearson'' = Inr [] \<and>
   [0..<shape1 run3_f_matrix] = [0, 1]"
proof -
  have cm: "correlation_matrix (\<lambda>m. Inr (Array2 run3_corrcoef))
      (\<lambda>m. Inl (LibraryError ''not called'')) ''pearson'' run3_f_matrix
      = Inr (Array2 run3_corrcoef)"
    by (simp add: correlation_matrix_def)
  have n: "shape1 run3_f_matrix = 2"
    by (simp add: shape1_def run3_f_matrix_def finite_matrix_def)
  have D: "index_to_remove (\<lambda>m. run3_col_means) ''strict'' (np_abs run3_corrcoef) (- 1/2)
      = Inr {0, 1}"
    unfolding index_to_remove_strict pairs_run3_negative
    by (auto simp: run3_col_means_def)
  have "multivariate_correlation_selector (\<lambda>m. Inr (Array2 run3_corrcoef))
      (\<lambda>m. Inl (LibraryError ''not called'')) (\<lambda>m. run3_col_means) run3_f_matrix ''strict''
      (- 1/2) ''pearson'' = Inr []"
    unfolding selector_Inr [OF cm D] n by (simp add: upt_rec)
  moreover have "[0..<shape1 run3_f_matrix] = [0, 1]"
    unfolding n by (simp add: upt_rec)
  moreover have "\<not> float_gt (float_abs (run3_corrcoef ! 0 ! 1)) (Finite (- 1/2))"
      "\<not> float_gt (float_abs (run3_corrcoef ! 1 ! 0)) (Finite (- 1/2))"
    by (simp_all add: run3_corrcoef_def)
  ultimately show ?thesis
    using pairs_run3_negative by simp
qed

end
